theory Spec2Isabelle
  imports Complex_Main "HOL-Library.Sublist"
begin

section \<open>Data model (src/types/api.ts, the state of useCoinDashboard)\<close>

text \<open>
  A JavaScript \<open>number\<close> is read as a rational: the coordinator only forwards the
  numeric payload of a market row. The one place where the hook computes with doubles,
  \<open>scheduleNext\<close>, is modelled only where that arithmetic is exact, and takes the
  rounded jitter as the machine computed it. A \<open>string\<close> is a list of code units; \<open>Date\<close> is a
  timestamp. The fields \<open>id\<close>, \<open>name\<close> and \<open>image\<close> of \<open>CoinMarket\<close> carry the
  suffix \<open>_coin\<close> (the plain names are taken by HOL and by the error object).
\<close>

record CoinMarket =
  id_coin :: string
  symbol :: string
  name_coin :: string
  image_coin :: string
  current_price :: rat
  market_cap :: rat
  market_cap_rank :: rat
  total_volume :: rat
  price_change_percentage_24h :: "rat option"

record MarketChartResponse =
  prices :: "(rat \<times> rat) list"
  market_caps :: "(rat \<times> rat) list"
  total_volumes :: "(rat \<times> rat) list"

record DashboardFilters =
  vsCurrency :: string
  timeRange :: rat
  selectedCoins :: "string list"
  primaryCoin :: string

record DashboardState =
  filters :: DashboardFilters
  availableCoins :: "CoinMarket list"
  selectedCoinMarkets :: "CoinMarket list"
  chartData :: "MarketChartResponse option"
  loadingMarkets :: bool
  loadingChart :: bool
  error :: "string option"
  lastUpdated :: "nat option"

definition DEFAULT_FILTERS :: DashboardFilters where
  "DEFAULT_FILTERS =
     \<lparr>vsCurrency = ''usd'', timeRange = 30, selectedCoins = [], primaryCoin = ''''\<rparr>"

text \<open>The initial values of the hook's \<open>useState\<close> cells (lines 49-56).\<close>

definition initial_state :: DashboardState where
  "initial_state =
     \<lparr>filters = DEFAULT_FILTERS, availableCoins = [], selectedCoinMarkets = [],
      chartData = None, loadingMarkets = False, loadingChart = False, error = None,
      lastUpdated = None\<rparr>"

section \<open>Thrown values and the service's response handling (src/services/coingecko.ts)\<close>

text \<open>
  \<open>Number(s)\<close> yields a finite number or \<open>NaN\<close> (infinities are left out). The
  conversion itself is a parameter \<open>toNumber\<close> of the functions that call it.
\<close>

datatype jsnum = NaN | Num rat

text \<open>
  The classes a thrown object can be constructed from. The service declares two classes
  named \<open>RateLimitError\<close>: one local to \<open>request\<close> (lines 80-88) and the exported one
  (lines 101-109). Both extend \<open>Error\<close>; neither extends the other.
\<close>

datatype js_class =
    Error_class
  | TypeError_class
  | DOMException_class
  | request_RateLimitError
  | exported_RateLimitError

record js_error =
  cls :: js_class
  name :: string
  message :: string
  status :: "nat option"
  retryAfter :: "jsnum option"

datatype thrown = ErrorObj js_error | NonError string

text \<open>\<open>err instanceof RateLimitError\<close>, the class imported by the hook (the exported one).\<close>

fun instanceof_RateLimitError :: "thrown \<Rightarrow> bool" where
  "instanceof_RateLimitError (ErrorObj e) = (cls e = exported_RateLimitError)"
| "instanceof_RateLimitError (NonError s) = False"

fun string_of_nat :: "nat \<Rightarrow> string" where
  "string_of_nat n =
     (if n < 10 then [char_of (48 + n)]
      else string_of_nat (n div 10) @ [char_of (48 + n mod 10)])"

record 'a response =
  resp_status :: nat
  resp_ok :: bool
  resp_retry_after :: "string option"
  resp_text :: string
  resp_json :: "thrown + 'a"

text \<open>
  \<open>request\<close> from the point where \<open>fetch\<close> has settled (lines 71-97): a rejected
  \<open>fetch\<close> propagates, a 429 throws the local \<open>RateLimitError\<close>, any other non-ok
  status throws a plain \<open>Error\<close>, otherwise the outcome of \<open>response.json()\<close>
  (the parsed body, or what the parser threw) is the result.
\<close>

definition request :: "(string \<Rightarrow> jsnum) \<Rightarrow> thrown + 'a response \<Rightarrow> thrown + 'a" where
  "request toNumber fetched =
     (case fetched of
        Inl err \<Rightarrow> Inl err
      | Inr r \<Rightarrow>
          if resp_status r = 429 then
            (let retryHeader = resp_retry_after r;
                 retryAfter' = (case retryHeader of
                                  None \<Rightarrow> None
                                | Some h \<Rightarrow> if h = [] then None else Some (toNumber h))
             in Inl (ErrorObj \<lparr>cls = request_RateLimitError, name = ''RateLimitError'',
                      message = ''Rate limit exceeded'', status = Some 429,
                      retryAfter = retryAfter'\<rparr>))
          else if \<not> resp_ok r then
            (let message' = resp_text r
             in Inl (ErrorObj \<lparr>cls = Error_class, name = ''Error'',
                      message = (if message' = [] then
                         ''CoinGecko request failed with status '' @ string_of_nat (resp_status r)
                         else message'),
                      status = None, retryAfter = None\<rparr>))
          else resp_json r)"

text \<open>
  What \<open>getTopMarkets\<close> and \<open>getMarketChart\<close> hand to \<open>request\<close>: the endpoint and
  the query parameters. A call of either issues exactly this request.
\<close>

datatype param = PString string | PNumber rat | PBoolean bool

record api_request =
  endpoint :: string
  params :: "(string \<times> param) list"

definition getTopMarkets :: "string \<Rightarrow> rat \<Rightarrow> api_request" where
  "getTopMarkets vsCurrency' perPage =
     \<lparr>endpoint = ''coins/markets'',
      params = [(''vs_currency'', PString vsCurrency'), (''order'', PString ''market_cap_desc''),
                (''per_page'', PNumber perPage), (''page'', PNumber 1),
                (''sparkline'', PBoolean False),
                (''price_change_percentage'', PString ''24h'')]\<rparr>"

definition getMarketChart :: "string \<Rightarrow> string \<Rightarrow> rat \<Rightarrow> api_request" where
  "getMarketChart coinId vsCurrency' days =
     \<lparr>endpoint = ''coins/'' @ coinId @ ''/market_chart'',
      params = [(''vs_currency'', PString vsCurrency'), (''days'', PNumber days),
                (''precision'', PNumber 2)]\<rparr>"

section \<open>The snapshot cycle (src/hooks/useCoinDashboard.ts, loadMarketOverview)\<close>

text \<open>\<open>areArraysEqual\<close> (utils/array): equal lengths, then every index compared.\<close>

definition areArraysEqual :: "'a list \<Rightarrow> 'a list \<Rightarrow> bool" where
  "areArraysEqual a b =
     (if length a \<noteq> length b then False
      else list_all (\<lambda>index. a ! index = b ! index) [0..<length a])"

text \<open>\<open>String.prototype.includes\<close>.\<close>

definition str_includes :: "string \<Rightarrow> string \<Rightarrow> bool" where
  "str_includes s sub =
     list_ex (\<lambda>i. take (length sub) (drop i s) = sub) [0..<Suc (length s)]"

text \<open>\<open>Math.round\<close>: the nearest integer, halves towards plus infinity.\<close>

definition Math_round :: "rat \<Rightarrow> int" where
  "Math_round x = \<lfloor>x + 1 / 2\<rfloor>"

text \<open>
  The translation function \<open>t(key, vars)\<close> of the i18n hook is a parameter: its string
  table (\<open>./translations\<close>) is not among the sources.
\<close>

type_synonym translate = "string \<Rightarrow> (string \<times> int) list option \<Rightarrow> string"

text \<open>\<open>signal?.aborted\<close> for a signal that may be \<open>null\<close>.\<close>

fun signal_aborted :: "bool option \<Rightarrow> bool" where
  "signal_aborted None = False"
| "signal_aborted (Some aborted) = aborted"

text \<open>
  The body of the two \<open>catch\<close> blocks (lines 106-121 and 142-156), which differ only in
  the fallback text: the message written to \<open>error\<close>.
\<close>

definition catch_message :: "translate \<Rightarrow> thrown \<Rightarrow> string \<Rightarrow> string" where
  "catch_message t err fallback =
     (if instanceof_RateLimitError err then
        (let retry = (case err of
                        ErrorObj e \<Rightarrow>
                          (case retryAfter e of
                             Some (Num x) \<Rightarrow> if x > 0 then Some (Math_round x) else None
                           | _ \<Rightarrow> None)
                      | NonError s \<Rightarrow> None)
         in case retry of
              Some n \<Rightarrow> if n = 0 then t ''rateLimitRetryLater'' None
                        else t ''rateLimitMessage'' (Some [(''n'', n)])
            | None \<Rightarrow> t ''rateLimitRetryLater'' None)
      else
        (let msg = (case err of ErrorObj e \<Rightarrow> message e | NonError s \<Rightarrow> s)
         in if str_includes msg ''Failed to fetch'' \<or> str_includes msg ''NetworkError''
            then ''No se pudo conectar con CoinGecko. Revisa tu conexi'' @ [CHR 0xF3]
                   @ ''n o intenta de nuevo.''
            else if msg = [] then fallback else msg))"

text \<open>How the promise of an async function settles.\<close>

datatype settled = Fulfilled | Rejected thrown

text \<open>
  \<open>loadMarketOverview\<close> in two steps. The first runs up to the \<open>await\<close>: it writes
  \<open>loadingMarkets\<close>, does not read the signal, and issues the request. The second runs when
  \<open>getTopMarkets\<close> has settled with \<open>outcome\<close>; \<open>f\<close> is the \<open>filters\<close> value the
  callback closed over, \<open>s\<close> the state at that moment, \<open>now\<close> is \<open>new Date()\<close>.
\<close>

definition loadMarketOverview_start ::
  "bool option \<Rightarrow> DashboardFilters \<Rightarrow> DashboardState \<Rightarrow> DashboardState \<times> api_request" where
  "loadMarketOverview_start signal f s =
     (s\<lparr>loadingMarkets := True\<rparr>, getTopMarkets (vsCurrency f) 50)"

definition loadMarketOverview_resume ::
  "translate \<Rightarrow> DashboardFilters \<Rightarrow> bool option \<Rightarrow> thrown + CoinMarket list \<Rightarrow> nat
     \<Rightarrow> DashboardState \<Rightarrow> DashboardState \<times> settled" where
  "loadMarketOverview_resume t f signal outcome now s =
     (case outcome of
        Inr data \<Rightarrow>
          if signal_aborted signal then (s, Fulfilled)
          else
            (let s1 = s\<lparr>availableCoins := data\<rparr>;
                 filtered = filter (\<lambda>coinId. list_ex (\<lambda>coin. id_coin coin = coinId) data)
                              (selectedCoins f);
                 fallbackSelected = filtered;
                 nextPrimary = (if primaryCoin f \<in> set filtered then primaryCoin f
                                else (case filtered of [] \<Rightarrow> '''' | first # rest \<Rightarrow> first));
                 s2 = (if \<not> areArraysEqual fallbackSelected (selectedCoins f)
                          \<or> nextPrimary \<noteq> primaryCoin f
                       then s1\<lparr>filters := (filters s1)\<lparr>selectedCoins := fallbackSelected,
                                                        primaryCoin := nextPrimary\<rparr>\<rparr>
                       else s1);
                 s3 = s2\<lparr>selectedCoinMarkets :=
                         map the (filter (\<lambda>coin. coin \<noteq> None)
                           (map (\<lambda>coinId. find (\<lambda>coin. id_coin coin = coinId) data)
                              fallbackSelected))\<rparr>;
                 s4 = s3\<lparr>error := None\<rparr>;
                 s5 = s4\<lparr>lastUpdated := Some now\<rparr>
             in (s5\<lparr>loadingMarkets := False\<rparr>, Fulfilled))
      | Inl err \<Rightarrow>
          if signal_aborted signal then (s, Fulfilled)
          else
            (let s1 = s\<lparr>error := Some (catch_message t err
                                       ''Unexpected error while loading market data.'')\<rparr>
             in (s1\<lparr>loadingMarkets := False\<rparr>, Fulfilled)))"

section \<open>The series cycle (loadChart)\<close>

definition loadChart_start ::
  "bool option \<Rightarrow> DashboardFilters \<Rightarrow> DashboardState \<Rightarrow> DashboardState \<times> api_request" where
  "loadChart_start signal f s =
     (s\<lparr>loadingChart := True\<rparr>, getMarketChart (primaryCoin f) (vsCurrency f) (timeRange f))"

definition loadChart_resume ::
  "translate \<Rightarrow> bool option \<Rightarrow> thrown + MarketChartResponse \<Rightarrow> nat
     \<Rightarrow> DashboardState \<Rightarrow> DashboardState \<times> settled" where
  "loadChart_resume t signal outcome now s =
     (case outcome of
        Inr data \<Rightarrow>
          if signal_aborted signal then (s, Fulfilled)
          else
            (let s1 = s\<lparr>chartData := Some data\<rparr>;
                 s2 = s1\<lparr>error := None\<rparr>;
                 s3 = s2\<lparr>lastUpdated := Some now\<rparr>
             in (s3\<lparr>loadingChart := False\<rparr>, Fulfilled))
      | Inl err \<Rightarrow>
          if signal_aborted signal then (s, Fulfilled)
          else
            (let s1 = s\<lparr>error := Some (catch_message t err
                                       ''Unexpected error while loading chart data.'')\<rparr>
             in (s1\<lparr>loadingChart := False\<rparr>, Fulfilled)))"

section \<open>The triggers: the two effects and refreshData\<close>

text \<open>
  Each trigger makes a fresh \<open>AbortController\<close>, so the signal it passes is not aborted.
  The result is the state after the synchronous part and the requests issued.
\<close>

definition marketEffect :: "DashboardFilters \<Rightarrow> DashboardState \<Rightarrow> DashboardState \<times> api_request list" where
  "marketEffect f s = (let (s1, req) = loadMarketOverview_start (Some False) f s in (s1, [req]))"

definition chartEffect :: "DashboardFilters \<Rightarrow> DashboardState \<Rightarrow> DashboardState \<times> api_request list" where
  "chartEffect f s =
     (if primaryCoin f = [] then (s, [])
      else (let (s1, req) = loadChart_start (Some False) f s in (s1, [req])))"

definition refreshData :: "DashboardFilters \<Rightarrow> DashboardState \<Rightarrow> DashboardState \<times> api_request list" where
  "refreshData f s =
     (let (s1, req1) = loadMarketOverview_start (Some False) f s;
          (s2, req2) = loadChart_start (Some False) f s1
      in (s2, [req1, req2]))"

section \<open>The polling effect (lines 185-238)\<close>

text \<open>\<open>Number(env ?? 0) || 0\<close> for the environment entry, which may be unset.\<close>

definition AUTO_REFRESH_MS :: "(string \<Rightarrow> jsnum) \<Rightarrow> string option \<Rightarrow> rat" where
  "AUTO_REFRESH_MS toNumber env =
     (case env of
        None \<Rightarrow> 0
      | Some v \<Rightarrow> (case toNumber v of NaN \<Rightarrow> 0 | Num x \<Rightarrow> if x = 0 then 0 else x))"

text \<open>
  The delay handed to \<open>setTimeout\<close>: \<open>Exact d\<close> when every double operation that
  produced it was exact, so that the code's number is the rational \<open>d\<close>; \<open>Inexact\<close>
  when an operation may have rounded, overflowed or produced \<open>NaN\<close>, and the model does
  not say which number the code passed.
\<close>

datatype delay = Exact rat | Inexact

text \<open>
  The variables the effect's closures share. \<open>timeoutId\<close> holds the delay given to the
  last \<open>setTimeout\<close>, and \<open>None\<close> while no timer has been created.
\<close>

record poll =
  isFetching :: bool
  failureCount :: nat
  cancelled :: bool
  timeoutId :: "delay option"

text \<open>
  The intervals for which the delay arithmetic of \<open>scheduleNext\<close> is exact in doubles:
  whole numbers of milliseconds up to \<open>2^49\<close>. For these, the products by 1, 2, 4, 8 and
  6 are integers below \<open>2^53\<close>.
\<close>

definition exact_interval :: "rat \<Rightarrow> bool" where
  "exact_interval ms = (0 < ms \<and> ms \<le> 2 ^ 49 \<and> of_int \<lfloor>ms\<rfloor> = ms)"

text \<open>
  The delay of \<open>scheduleNext\<close> before the jitter is added (lines 195-201); \<open>hidden\<close> is
  \<open>typeof document !== "undefined" && document.hidden\<close>. For an exact interval this is
  the number the code holds in \<open>next\<close> at line 201.
\<close>

definition nonJittered :: "rat \<Rightarrow> bool \<Rightarrow> nat \<Rightarrow> rat" where
  "nonJittered ms hidden failures =
     (let multiplier = min (2 ^ failures) 8;
          next = ms * multiplier
      in if hidden then max next (ms * 6) else next)"

text \<open>
  \<open>scheduleNext\<close>. The argument \<open>jitter\<close> is the integer that line 204,
  \<open>Math.round(next * (Math.random() * 0.2 - 0.1))\<close>, evaluates to in double arithmetic;
  it is an input, as the random number is, because the products and the rounding are not
  exact. With an exact interval and a jitter up to \<open>2^52\<close> in size the sum and the maximum
  of line 205 are exact; otherwise the delay is \<open>Inexact\<close>.
\<close>

definition scheduleNext :: "rat \<Rightarrow> bool \<Rightarrow> int \<Rightarrow> poll \<Rightarrow> poll" where
  "scheduleNext ms hidden jitter p =
     (if exact_interval ms \<and> \<bar>jitter\<bar> \<le> 2 ^ 52 then
        (let next = nonJittered ms hidden (failureCount p);
             next' = max 1000 (next + of_int jitter)
         in p\<lparr>timeoutId := Some (Exact next')\<rparr>)
      else p\<lparr>timeoutId := Some Inexact\<rparr>)"

text \<open>\<open>Promise.all\<close> over promises listed in the order they settle.\<close>

fun Promise_all :: "settled list \<Rightarrow> settled" where
  "Promise_all [] = Fulfilled"
| "Promise_all (Fulfilled # rest) = Promise_all rest"
| "Promise_all (Rejected err # rest) = Rejected err"

text \<open>
  \<open>attemptFetch\<close> up to its \<open>await\<close>: the three early returns, else both loaders are
  started on a fresh signal.
\<close>

definition attemptFetch_start ::
  "rat \<Rightarrow> bool \<Rightarrow> int \<Rightarrow> DashboardFilters \<Rightarrow> DashboardState \<times> poll
     \<Rightarrow> DashboardState \<times> poll \<times> api_request list" where
  "attemptFetch_start ms hidden jitter f sp =
     (let (s, p) = sp in
      if cancelled p then (s, p, [])
      else if isFetching p then (s, scheduleNext ms hidden jitter p, [])
      else if hidden then (s, scheduleNext ms hidden jitter p, [])
      else
        (let p1 = p\<lparr>isFetching := True\<rparr>;
             (s1, req1) = loadMarketOverview_start (Some False) f s;
             (s2, req2) = loadChart_start (Some False) f s1
         in (s2, p1, [req1, req2])))"

text \<open>
  \<open>attemptFetch\<close> from the point where both fetches have settled: the loaders resume
  (the chart first when \<open>chartFirst\<close>), the signal still not aborted, then the
  \<open>try\<close>/\<open>catch\<close>/\<open>finally\<close> around \<open>Promise.all\<close> runs. \<open>hidden\<close> and \<open>jitter\<close>
  belong to the \<open>scheduleNext\<close> of the \<open>finally\<close> block.
\<close>

definition attemptFetch_settle ::
  "rat \<Rightarrow> bool \<Rightarrow> int \<Rightarrow> translate \<Rightarrow> DashboardFilters \<Rightarrow> bool
     \<Rightarrow> thrown + CoinMarket list \<Rightarrow> thrown + MarketChartResponse \<Rightarrow> nat
     \<Rightarrow> DashboardState \<times> poll \<Rightarrow> DashboardState \<times> poll" where
  "attemptFetch_settle ms hidden jitter t f chartFirst marketOutcome chartOutcome now sp =
     (let (s, p) = sp;
          (s2, all) =
            (if chartFirst then
               (let (s1, c) = loadChart_resume t (Some False) chartOutcome now s;
                    (s2, m) = loadMarketOverview_resume t f (Some False) marketOutcome now s1
                in (s2, Promise_all [c, m]))
             else
               (let (s1, m) = loadMarketOverview_resume t f (Some False) marketOutcome now s;
                    (s2, c) = loadChart_resume t (Some False) chartOutcome now s1
                in (s2, Promise_all [m, c])));
          p1 = (case all of
                  Fulfilled \<Rightarrow> p\<lparr>failureCount := 0\<rparr>
                | Rejected err \<Rightarrow> p\<lparr>failureCount := min (failureCount p + 1) 6\<rparr>);
          p2 = p1\<lparr>isFetching := False\<rparr>
      in (s2, if \<not> cancelled p2 then scheduleNext ms hidden jitter p2 else p2))"

text \<open>The effect body: nothing at all unless the interval is positive, else a first attempt.\<close>

definition pollingEffect ::
  "rat \<Rightarrow> bool \<Rightarrow> int \<Rightarrow> DashboardFilters \<Rightarrow> DashboardState
     \<Rightarrow> DashboardState \<times> poll option \<times> api_request list" where
  "pollingEffect ms hidden jitter f s =
     (if ms = 0 \<or> ms \<le> 0 then (s, None, [])
      else
        (let p0 = \<lparr>isFetching = False, failureCount = 0, cancelled = False, timeoutId = None\<rparr>;
             (s1, p1, reqs) = attemptFetch_start ms hidden jitter f (s, p0)
         in (s1, Some p1, reqs)))"

text \<open>The effect's cleanup: later completions see \<open>cancelled\<close>.\<close>

definition pollingCleanup :: "poll \<Rightarrow> poll" where
  "pollingCleanup p = p\<lparr>cancelled := True\<rparr>"

section \<open>Concrete inputs used by the evaluations below\<close>

text \<open>
  A market row with a given id, and the state whose selection is
  \<open>bitcoin, ethereum, solana\<close> with \<open>ethereum\<close> as primary coin.
\<close>

definition sample_coin :: "string \<Rightarrow> CoinMarket" where
  "sample_coin i =
     \<lparr>id_coin = i, symbol = i, name_coin = i, image_coin = [], current_price = 1,
      market_cap = 1, market_cap_rank = 1, total_volume = 1,
      price_change_percentage_24h = None\<rparr>"

definition sample_state :: DashboardState where
  "sample_state = initial_state\<lparr>filters := DEFAULT_FILTERS
     \<lparr>selectedCoins := [''bitcoin'', ''ethereum'', ''solana''], primaryCoin := ''ethereum''\<rparr>\<rparr>"

text \<open>
  Thrown values, a 429 response carrying \<open>Retry-After: 12\<close>, a number conversion that
  agrees with \<open>Number\<close> on that header, and the closure state of a polling effect that
  has just started.
\<close>

definition abortError :: thrown where
  "abortError = ErrorObj \<lparr>cls = DOMException_class, name = ''AbortError'',
     message = ''The operation was aborted.'', status = None, retryAfter = None\<rparr>"

definition networkError :: thrown where
  "networkError = ErrorObj \<lparr>cls = TypeError_class, name = ''TypeError'',
     message = ''Failed to fetch'', status = None, retryAfter = None\<rparr>"

definition response_429 :: "'a \<Rightarrow> 'a response" where
  "response_429 body = \<lparr>resp_status = 429, resp_ok = False, resp_retry_after = Some ''12'',
     resp_text = [], resp_json = Inr body\<rparr>"

definition empty_chart :: MarketChartResponse where
  "empty_chart = \<lparr>prices = [], market_caps = [], total_volumes = []\<rparr>"

definition number_12 :: "string \<Rightarrow> jsnum" where
  "number_12 h = (if h = ''12'' then Num 12 else NaN)"

text \<open>
  The state \<open>sample_state\<close> after the time range was changed to 7. The callback
  \<open>loadMarketOverview\<close> does not depend on \<open>timeRange\<close> (line 128), so a cycle started
  from it still holds the filters of \<open>sample_state\<close> in its closure.
\<close>

definition sample_state_7 :: DashboardState where
  "sample_state_7 = sample_state\<lparr>filters := (filters sample_state)\<lparr>timeRange := 7\<rparr>\<rparr>"

definition fresh_poll :: poll where
  "fresh_poll = \<lparr>isFetching = False, failureCount = 0, cancelled = False, timeoutId = None\<rparr>"

section \<open>Snapshot reconciliation\<close>

lemma areArraysEqual_iff: "areArraysEqual a b \<longleftrightarrow> a = b"
proof (cases "length a = length b")
  case True
  then show ?thesis
    unfolding areArraysEqual_def list_all_iff
    by (auto intro: nth_equalityI)
next
  case False
  then show ?thesis unfolding areArraysEqual_def by auto
qed

lemma list_ex_id:
  "list_ex (\<lambda>coin. id_coin coin = coinId) data \<longleftrightarrow> coinId \<in> id_coin ` set data"
  by (auto simp: list_ex_iff)

text \<open>
  The filters after a successful cycle, for any closure \<open>f\<close> and any state \<open>s\<close>: the
  combined update is applied to the filters of \<open>s\<close> when the closure's selection lost an id
  or its primary coin has to change, and the filters of \<open>s\<close> are kept otherwise.
\<close>

lemma resume_filters:
  assumes "\<not> signal_aborted signal"
  shows "filters (fst (loadMarketOverview_resume t f signal (Inr data) now s))
     = (let filtered = filter (\<lambda>coinId. coinId \<in> id_coin ` set data) (selectedCoins f);
            nextPrimary = (if primaryCoin f \<in> set filtered then primaryCoin f
                           else (case filtered of [] \<Rightarrow> [] | first # rest \<Rightarrow> first))
        in if filtered \<noteq> selectedCoins f \<or> nextPrimary \<noteq> primaryCoin f
           then (filters s)\<lparr>selectedCoins := filtered, primaryCoin := nextPrimary\<rparr>
           else filters s)"
proof -
  define F where
    "F = filter (\<lambda>coinId. list_ex (\<lambda>coin. id_coin coin = coinId) data) (selectedCoins f)"
  define N where
    "N = (if primaryCoin f \<in> set F then primaryCoin f
          else (case F of [] \<Rightarrow> [] | first # rest \<Rightarrow> first))"
  have "filters (fst (loadMarketOverview_resume t f signal (Inr data) now s))
     = (if F \<noteq> selectedCoins f \<or> N \<noteq> primaryCoin f
        then (filters s)\<lparr>selectedCoins := F, primaryCoin := N\<rparr> else filters s)"
    unfolding loadMarketOverview_resume_def Let_def sum.case
    apply (fold F_def)
    apply (fold N_def)
    using assms
    apply (simp add: areArraysEqual_iff)
    done
  then show ?thesis unfolding Let_def N_def F_def list_ex_id .
qed

lemma find_id_Some:
  "coinId \<in> id_coin ` set data \<Longrightarrow>
   \<exists>c. find (\<lambda>coin. id_coin coin = coinId) data = Some c \<and> id_coin c = coinId \<and> c \<in> set data"
  by (induction data) auto

lemma map_the_filter:
  "map the (filter (\<lambda>c. \<exists>y. c = Some y) (map g xs)) = List.map_filter g xs"
  by (induction xs) auto

lemma resume_markets:
  "\<not> signal_aborted signal \<Longrightarrow>
   selectedCoinMarkets (fst (loadMarketOverview_resume t f signal (Inr data) now s))
     = List.map_filter (\<lambda>coinId. find (\<lambda>coin. id_coin coin = coinId) data)
         (filter (\<lambda>coinId. coinId \<in> id_coin ` set data) (selectedCoins f))"
  by (simp add: loadMarketOverview_resume_def Let_def list_ex_id map_the_filter)

lemma map_filter_find_ids:
  "set xs \<subseteq> id_coin ` set data \<Longrightarrow>
   map id_coin (List.map_filter (\<lambda>coinId. find (\<lambda>coin. id_coin coin = coinId) data) xs) = xs
   \<and> set (List.map_filter (\<lambda>coinId. find (\<lambda>coin. id_coin coin = coinId) data) xs) \<subseteq> set data"
proof (induction xs)
  case Nil
  then show ?case by simp
next
  case (Cons x xs)
  then obtain c where
    "find (\<lambda>coin. id_coin coin = x) data = Some c" "id_coin c = x" "c \<in> set data"
    using find_id_Some [of x data] by auto
  with Cons show ?case by simp
qed

lemma nextPrimary_member:
  "(case F of [] \<Rightarrow> [] | first # rest \<Rightarrow> first) = [] \<or>
   (case F of [] \<Rightarrow> [] | first # rest \<Rightarrow> first) \<in> set F"
  by (cases F) auto

text \<open>
  Claim C1. For every snapshot fetch that succeeded and was not cancelled, whatever the
  closure \<open>f\<close> and the state \<open>s\<close>: the reconciled selection is the selection the cycle
  read filtered to the ids of the fetched rows, a subsequence of it with every id in the
  snapshot. It is what the state holds afterwards whenever the combined update is issued; when
  no update is due the filters of the state are left as they are. So when the cycle read the
  selection the state holds, the state's selection afterwards is that selection filtered.
\<close>

theorem snapshot_reconciled_selection:
  assumes "\<not> signal_aborted signal"
  shows "(let filtered = filter (\<lambda>coinId. coinId \<in> id_coin ` set data) (selectedCoins f);
              nextPrimary = (if primaryCoin f \<in> set filtered then primaryCoin f
                             else (case filtered of [] \<Rightarrow> '''' | first # rest \<Rightarrow> first));
              selected' = selectedCoins (filters (fst
                 (loadMarketOverview_resume t f signal (Inr data) now s)))
          in subseq filtered (selectedCoins f)
             \<and> set filtered \<subseteq> id_coin ` set data
             \<and> selected' = (if filtered \<noteq> selectedCoins f \<or> nextPrimary \<noteq> primaryCoin f
                             then filtered else selectedCoins (filters s))
             \<and> (selectedCoins f = selectedCoins (filters s) \<longrightarrow>
                  selected' = filter (\<lambda>coinId. coinId \<in> id_coin ` set data)
                                (selectedCoins (filters s))
                  \<and> subseq selected' (selectedCoins (filters s))
                  \<and> set selected' \<subseteq> id_coin ` set data))"
proof -
  define F where "F = filter (\<lambda>coinId. coinId \<in> id_coin ` set data) (selectedCoins f)"
  define N where "N = (if primaryCoin f \<in> set F then primaryCoin f
                       else (case F of [] \<Rightarrow> [] | first # rest \<Rightarrow> first))"
  define S where
    "S = selectedCoins (filters (fst (loadMarketOverview_resume t f signal (Inr data) now s)))"
  have sub: "subseq F (selectedCoins f)" and ids: "set F \<subseteq> id_coin ` set data"
    by (auto simp: F_def)
  have S: "S = (if F \<noteq> selectedCoins f \<or> N \<noteq> primaryCoin f then F
                else selectedCoins (filters s))"
    unfolding S_def resume_filters [OF assms] Let_def F_def [symmetric] N_def [symmetric]
    by simp
  have agree: "S = F" if "selectedCoins f = selectedCoins (filters s)"
    using that S by (cases "F \<noteq> selectedCoins f \<or> N \<noteq> primaryCoin f") auto
  have imp: "selectedCoins f = selectedCoins (filters s) \<longrightarrow>
          S = filter (\<lambda>coinId. coinId \<in> id_coin ` set data) (selectedCoins (filters s))
          \<and> subseq S (selectedCoins (filters s)) \<and> set S \<subseteq> id_coin ` set data"
    using agree sub ids by (auto simp: F_def)
  show ?thesis
    unfolding Let_def F_def [symmetric] N_def [symmetric] S_def [symmetric]
    using sub ids S imp by blast
qed

text \<open>
  The scenario of the specification (selection \<open>bitcoin, ethereum, solana\<close>, snapshot
  \<open>bitcoin, cardano\<close>), run by a cycle whose closure still has time range 30 while the
  state has 7: the selection becomes \<open>bitcoin\<close> and the time range of the state stays 7.
\<close>

theorem snapshot_reconciled_selection_witness:
  "selectedCoins (filters sample_state) = selectedCoins (filters sample_state_7)
   \<and> filters sample_state \<noteq> filters sample_state_7
   \<and> selectedCoins (filters (fst (loadMarketOverview_resume (\<lambda>key vars. key)
        (filters sample_state) (Some False)
        (Inr [sample_coin ''bitcoin'', sample_coin ''cardano'']) 0 sample_state_7)))
      = [''bitcoin'']
   \<and> timeRange (filters (fst (loadMarketOverview_resume (\<lambda>key vars. key)
        (filters sample_state) (Some False)
        (Inr [sample_coin ''bitcoin'', sample_coin ''cardano'']) 0 sample_state_7))) = 7"
  using snapshot_reconciled_selection [where signal = "Some False" and s = sample_state_7
        and f = "filters sample_state" and t = "\<lambda>key vars. key"
        and data = "[sample_coin ''bitcoin'', sample_coin ''cardano'']" and now = 0]
    resume_filters [where signal = "Some False" and s = sample_state_7
        and f = "filters sample_state" and t = "\<lambda>key vars. key"
        and data = "[sample_coin ''bitcoin'', sample_coin ''cardano'']" and now = 0]
  by (simp add: Let_def sample_state_7_def sample_state_def sample_coin_def initial_state_def
      DEFAULT_FILTERS_def)

text \<open>
  Claim C2. For every snapshot fetch that succeeded and was not cancelled, the new primary
  coin computed by the cycle is the primary coin it read when that id is in the filtered
  selection (it is selected and occurs in the snapshot), else the first id of the filtered
  selection, else the empty string; it is empty or a member of the filtered selection. The
  state holds it afterwards whenever the combined update is issued, and keeps its own
  primary coin otherwise. So when the cycle read the selection and the primary coin the state
  holds, the state's primary coin afterwards is that value, and it is empty or a member of
  the state's selection.
\<close>

theorem snapshot_reconciled_primary:
  assumes "\<not> signal_aborted signal"
  shows "(let filtered = filter (\<lambda>coinId. coinId \<in> id_coin ` set data) (selectedCoins f);
              nextPrimary = (if primaryCoin f \<in> set (selectedCoins f)
                                \<and> primaryCoin f \<in> id_coin ` set data
                             then primaryCoin f
                             else (case filtered of [] \<Rightarrow> '''' | first # rest \<Rightarrow> first));
              s' = fst (loadMarketOverview_resume t f signal (Inr data) now s);
              selected' = selectedCoins (filters s');
              primary' = primaryCoin (filters s')
          in primary' = (if filtered \<noteq> selectedCoins f \<or> nextPrimary \<noteq> primaryCoin f
                         then nextPrimary else primaryCoin (filters s))
             \<and> (nextPrimary = '''' \<or> nextPrimary \<in> set filtered)
             \<and> (primaryCoin f = primaryCoin (filters s) \<longrightarrow> primary' = nextPrimary)
             \<and> (primaryCoin f = primaryCoin (filters s)
                  \<and> selectedCoins f = selectedCoins (filters s) \<longrightarrow>
                  selected' = filtered \<and> (primary' = '''' \<or> primary' \<in> set selected')))"
proof -
  define F where "F = filter (\<lambda>coinId. coinId \<in> id_coin ` set data) (selectedCoins f)"
  have mem: "primaryCoin f \<in> set F \<longleftrightarrow>
      primaryCoin f \<in> set (selectedCoins f) \<and> primaryCoin f \<in> id_coin ` set data"
    by (auto simp: F_def)
  show ?thesis
    using nextPrimary_member [of F]
    unfolding Let_def resume_filters [OF assms] F_def [symmetric] mem [symmetric]
    by auto
qed

text \<open>
  Two runs with a closure of time range 30 over a state of time range 7. Against the
  snapshot \<open>bitcoin, cardano\<close> the primary coin \<open>ethereum\<close> is replaced by \<open>bitcoin\<close>;
  against \<open>ethereum, solana\<close> it survives although it is not the first selected id.
\<close>

theorem snapshot_reconciled_primary_witness:
  "primaryCoin (filters sample_state) = primaryCoin (filters sample_state_7)
   \<and> selectedCoins (filters sample_state) = selectedCoins (filters sample_state_7)
   \<and> primaryCoin (filters (fst (loadMarketOverview_resume (\<lambda>key vars. key)
        (filters sample_state) (Some False)
        (Inr [sample_coin ''bitcoin'', sample_coin ''cardano'']) 0 sample_state_7)))
      = ''bitcoin''
   \<and> primaryCoin (filters (fst (loadMarketOverview_resume (\<lambda>key vars. key)
        (filters sample_state) (Some False)
        (Inr [sample_coin ''ethereum'', sample_coin ''solana'']) 0 sample_state_7)))
      = ''ethereum''
   \<and> selectedCoins (filters (fst (loadMarketOverview_resume (\<lambda>key vars. key)
        (filters sample_state) (Some False)
        (Inr [sample_coin ''ethereum'', sample_coin ''solana'']) 0 sample_state_7)))
      = [''ethereum'', ''solana'']"
  using snapshot_reconciled_primary [where signal = "Some False" and s = sample_state_7
        and f = "filters sample_state" and t = "\<lambda>key vars. key"
        and data = "[sample_coin ''bitcoin'', sample_coin ''cardano'']" and now = 0]
    snapshot_reconciled_primary [where signal = "Some False" and s = sample_state_7
        and f = "filters sample_state" and t = "\<lambda>key vars. key"
        and data = "[sample_coin ''ethereum'', sample_coin ''solana'']" and now = 0]
  by (simp add: Let_def sample_state_7_def sample_state_def sample_coin_def initial_state_def
      DEFAULT_FILTERS_def)

text \<open>
  Claim C8. For every snapshot fetch that succeeded and was not cancelled,
  \<open>selectedCoinMarkets\<close> is the reconciled selection (the selection the cycle read,
  filtered to the snapshot) mapped, in order, to the matching rows of the snapshot, ids
  without a row dropped. The ids of the projected rows are exactly the reconciled selection
  and every projected row is a row of the snapshot. When the cycle read the selection the
  state holds, this is the projection of the state's selection after the reconciliation.
\<close>

theorem snapshot_selected_markets:
  assumes "\<not> signal_aborted signal"
  shows "(let filtered = filter (\<lambda>coinId. coinId \<in> id_coin ` set data) (selectedCoins f);
              s' = fst (loadMarketOverview_resume t f signal (Inr data) now s);
              selected' = selectedCoins (filters s');
              markets = selectedCoinMarkets s'
          in markets = List.map_filter (\<lambda>coinId. find (\<lambda>coin. id_coin coin = coinId) data) filtered
             \<and> map id_coin markets = filtered
             \<and> set markets \<subseteq> set data
             \<and> (selectedCoins f = selectedCoins (filters s) \<longrightarrow>
                  markets = List.map_filter (\<lambda>coinId. find (\<lambda>coin. id_coin coin = coinId) data)
                              selected'
                  \<and> map id_coin markets = selected'))"
proof -
  let ?F = "filter (\<lambda>coinId. coinId \<in> id_coin ` set data) (selectedCoins f)"
  have "set ?F \<subseteq> id_coin ` set data" by auto
  from map_filter_find_ids [OF this] show ?thesis
    unfolding Let_def resume_filters [OF assms] resume_markets [OF assms] by auto
qed

theorem snapshot_selected_markets_witness:
  "selectedCoins (filters sample_state) = selectedCoins (filters sample_state_7)
   \<and> selectedCoinMarkets (fst (loadMarketOverview_resume (\<lambda>key vars. key)
        (filters sample_state) (Some False)
        (Inr [sample_coin ''bitcoin'', sample_coin ''cardano'']) 0 sample_state_7))
      = [sample_coin ''bitcoin'']
   \<and> selectedCoinMarkets (fst (loadMarketOverview_resume (\<lambda>key vars. key)
        (filters sample_state) (Some False)
        (Inr [sample_coin ''solana'', sample_coin ''cardano'', sample_coin ''bitcoin'']) 0
        sample_state_7))
      = [sample_coin ''bitcoin'', sample_coin ''solana'']"
  using snapshot_selected_markets [where signal = "Some False" and s = sample_state_7
        and f = "filters sample_state" and t = "\<lambda>key vars. key"
        and data = "[sample_coin ''bitcoin'', sample_coin ''cardano'']" and now = 0]
    snapshot_selected_markets [where signal = "Some False" and s = sample_state_7
        and f = "filters sample_state" and t = "\<lambda>key vars. key"
        and data = "[sample_coin ''solana'', sample_coin ''cardano'', sample_coin ''bitcoin'']"
        and now = 0]
  by (simp add: Let_def sample_state_7_def sample_state_def sample_coin_def initial_state_def
      DEFAULT_FILTERS_def)

section \<open>Rate limiting\<close>

lemma request_429:
  assumes "resp_status r = 429"
  shows "request toNumber (Inr r) =
     Inl (ErrorObj \<lparr>cls = request_RateLimitError, name = ''RateLimitError'',
            message = ''Rate limit exceeded'', status = Some 429,
            retryAfter = (case resp_retry_after r of
                            None \<Rightarrow> None
                          | Some h \<Rightarrow> if h = [] then None else Some (toNumber h))\<rparr>)"
  using assms by (simp add: request_def Let_def)

lemma not_includes_Failed: "\<not> str_includes ''Rate limit exceeded'' ''Failed to fetch''"
  by code_simp

lemma not_includes_NetworkError: "\<not> str_includes ''Rate limit exceeded'' ''NetworkError''"
  by code_simp

lemma not_includes_12: "\<not> str_includes ''Rate limit exceeded'' ''12''"
  by code_simp

lemma catch_message_local_RateLimitError:
  "catch_message t (ErrorObj \<lparr>cls = request_RateLimitError, name = n,
       message = ''Rate limit exceeded'', status = st, retryAfter = ra\<rparr>) fallback
     = ''Rate limit exceeded''"
  by (simp add: catch_message_def Let_def not_includes_Failed not_includes_NetworkError)

text \<open>
  Claim C10. For a response with status 429, \<open>request\<close> throws an object named
  \<open>RateLimitError\<close> with status 429 and \<open>retryAfter\<close> read from the
  \<open>Retry-After\<close> header (absent when the header is missing or empty). The object is built
  from the class local to \<open>request\<close>, so \<open>instanceof RateLimitError\<close> against the
  exported class is false for it.
\<close>

theorem request_429_throws_local_RateLimitError:
  assumes "resp_status r = 429"
  shows "\<exists>e. request toNumber (Inr r) = Inl (ErrorObj e)
           \<and> name e = ''RateLimitError'' \<and> status e = Some 429
           \<and> retryAfter e = (case resp_retry_after r of
                                None \<Rightarrow> None
                              | Some h \<Rightarrow> if h = [] then None else Some (toNumber h))
           \<and> cls e = request_RateLimitError
           \<and> instanceof_RateLimitError (ErrorObj e) = False"
  unfolding request_429 [OF assms] by simp

theorem request_429_throws_local_RateLimitError_witness:
  "\<exists>e. request number_12 (Inr (response_429 ())) = Inl (ErrorObj e)
           \<and> name e = ''RateLimitError'' \<and> status e = Some 429
           \<and> retryAfter e = Some (Num 12)
           \<and> instanceof_RateLimitError (ErrorObj e) = False"
  using request_429_throws_local_RateLimitError
    [where r = "response_429 ()" and toNumber = number_12]
  by (auto simp add: response_429_def number_12_def)

text \<open>
  Claim C5. The claim expects the rate-limit branch to produce a message that contains the
  retry delay. What the code does with a 429 response: the thrown object fails the
  \<open>instanceof\<close> test, the generic branch runs, and \<open>error\<close> becomes the plain text
  \<open>Rate limit exceeded\<close>, in both loaders and whatever the header said.
\<close>

theorem rate_limit_reported_by_generic_branch:
  assumes "resp_status r = 429" and "resp_status r' = 429" and "\<not> signal_aborted signal"
  shows "error (fst (loadMarketOverview_resume t f signal (request toNumber (Inr r)) now s))
           = Some ''Rate limit exceeded''
         \<and> error (fst (loadChart_resume t signal (request toNumber (Inr r')) now s))
           = Some ''Rate limit exceeded''"
  using assms
  by (simp add: request_429 loadMarketOverview_resume_def loadChart_resume_def Let_def
      catch_message_local_RateLimitError)

theorem rate_limit_reported_by_generic_branch_witness:
  "error (fst (loadMarketOverview_resume (\<lambda>key vars. key) DEFAULT_FILTERS (Some False)
       (request number_12 (Inr (response_429 []))) 0 initial_state))
     = Some ''Rate limit exceeded''
   \<and> error (fst (loadChart_resume (\<lambda>key vars. key) (Some False)
       (request number_12 (Inr (response_429 empty_chart))) 0 initial_state))
     = Some ''Rate limit exceeded''
   \<and> str_includes ''Rate limit exceeded'' ''12'' = False"
  using rate_limit_reported_by_generic_branch [where r = "response_429 []"
      and r' = "response_429 empty_chart" and signal = "Some False"
      and t = "\<lambda>key vars. key" and f = DEFAULT_FILTERS and toNumber = number_12 and now = 0
      and s = initial_state]
  by (simp add: response_429_def not_includes_12)

section \<open>Cancellation\<close>

text \<open>
  Claim C3. A cycle, snapshot or series, whose signal is aborted when the awaited fetch
  settles writes nothing: the result or the error is discarded, every state cell
  (loading flags, error, available coins, selected markets, chart data, filters, last update)
  keeps the value it has at that moment, and the promise fulfils. This holds from any state,
  so also from the state a newer cycle has written in the meantime. The abort status is
  read first on the success path, on the \<open>catch\<close> path and in \<open>finally\<close>. Every trigger
  starts its loaders on a signal created on the line before; the only write such a cycle
  makes is the loading flag set before the \<open>await\<close>, before any abort.
\<close>

theorem aborted_cycle_writes_nothing_after_await:
  assumes "signal_aborted signal"
  shows "loadMarketOverview_resume t f signal marketOutcome now s = (s, Fulfilled)
         \<and> loadChart_resume t signal chartOutcome now s = (s, Fulfilled)
         \<and> fst (loadMarketOverview_resume t f signal marketOutcome now
                  (fst (loadMarketOverview_start (Some False) f s)))
             = s\<lparr>loadingMarkets := True\<rparr>
         \<and> fst (loadChart_resume t signal chartOutcome now
                  (fst (loadChart_start (Some False) f s)))
             = s\<lparr>loadingChart := True\<rparr>"
  using assms
  by (simp add: loadMarketOverview_resume_def loadChart_resume_def loadMarketOverview_start_def
      loadChart_start_def split: sum.splits)

text \<open>
  A snapshot that would change the selection, and a rejected series fetch, both arriving
  after the abort: the state, here the one of the specification's scenario, is left as it is.
\<close>

theorem aborted_cycle_writes_nothing_after_await_witness:
  "signal_aborted (Some True)
   \<and> loadMarketOverview_resume (\<lambda>key vars. key) (filters sample_state) (Some True)
       (Inr [sample_coin ''bitcoin'', sample_coin ''cardano'']) 0 sample_state
       = (sample_state, Fulfilled)
   \<and> loadMarketOverview_resume (\<lambda>key vars. key) (filters sample_state) (Some True)
       (Inl abortError) 0 sample_state = (sample_state, Fulfilled)
   \<and> loadChart_resume (\<lambda>key vars. key) (Some True) (Inr empty_chart) 0 sample_state
       = (sample_state, Fulfilled)
   \<and> loadChart_resume (\<lambda>key vars. key) (Some True) (Inl abortError) 0 sample_state
       = (sample_state, Fulfilled)"
  using aborted_cycle_writes_nothing_after_await [where signal = "Some True"
      and t = "\<lambda>key vars. key" and f = "filters sample_state" and now = 0 and s = sample_state
      and marketOutcome = "Inr [sample_coin ''bitcoin'', sample_coin ''cardano'']"
      and chartOutcome = "Inr empty_chart"]
    aborted_cycle_writes_nothing_after_await [where signal = "Some True"
      and t = "\<lambda>key vars. key" and f = "filters sample_state" and now = 0 and s = sample_state
      and marketOutcome = "Inl abortError" and chartOutcome = "Inl abortError"]
  by simp

section \<open>Series requests for an empty primary coin\<close>

text \<open>
  Claim C6. The claim expects no series request from any trigger while the primary coin is
  empty. What the code does: only the filter-change effect has the guard;
  \<open>refreshData\<close> and a polling attempt call \<open>loadChart\<close> regardless and issue
  \<open>coins//market_chart\<close>.
\<close>

theorem series_request_issued_for_empty_primary:
  assumes "primaryCoin f = []" and "\<not> cancelled p" and "\<not> isFetching p" and "\<not> hidden"
  shows "snd (chartEffect f s) = []
         \<and> snd (refreshData f s)
             = [getTopMarkets (vsCurrency f) 50, getMarketChart [] (vsCurrency f) (timeRange f)]
         \<and> snd (snd (attemptFetch_start ms hidden jitter f (s, p)))
             = [getTopMarkets (vsCurrency f) 50, getMarketChart [] (vsCurrency f) (timeRange f)]"
  using assms
  by (simp add: chartEffect_def refreshData_def attemptFetch_start_def
      loadMarketOverview_start_def loadChart_start_def Let_def)

theorem series_request_issued_for_empty_primary_witness:
  "map endpoint (snd (refreshData DEFAULT_FILTERS initial_state))
     = [''coins/markets'', ''coins//market_chart'']
   \<and> map endpoint (snd (snd (attemptFetch_start 60000 False 0 DEFAULT_FILTERS
                             (initial_state, fresh_poll))))
     = [''coins/markets'', ''coins//market_chart'']"
  using series_request_issued_for_empty_primary [where f = DEFAULT_FILTERS and p = fresh_poll
      and hidden = False and s = initial_state and ms = 60000 and jitter = 0]
  by (simp add: DEFAULT_FILTERS_def fresh_poll_def getTopMarkets_def getMarketChart_def)

section \<open>Polling\<close>

lemma loadMarketOverview_resume_Fulfilled:
  "snd (loadMarketOverview_resume t f signal outcome now s) = Fulfilled"
  by (simp add: loadMarketOverview_resume_def Let_def split: sum.splits)

lemma loadChart_resume_Fulfilled:
  "snd (loadChart_resume t signal outcome now s) = Fulfilled"
  by (simp add: loadChart_resume_def Let_def split: sum.splits)

lemma attemptFetch_settle_poll:
  "snd (attemptFetch_settle ms hidden jitter t f chartFirst marketOutcome chartOutcome now (s, p))
     = (if cancelled p then p\<lparr>failureCount := 0, isFetching := False\<rparr>
        else scheduleNext ms hidden jitter (p\<lparr>failureCount := 0, isFetching := False\<rparr>))"
proof -
  obtain s1 where m: "loadMarketOverview_resume t f (Some False) marketOutcome now s = (s1, Fulfilled)"
    using loadMarketOverview_resume_Fulfilled [of t f "Some False" marketOutcome now s]
    by (cases "loadMarketOverview_resume t f (Some False) marketOutcome now s") simp
  obtain s2 where c: "loadChart_resume t (Some False) chartOutcome now s1 = (s2, Fulfilled)"
    using loadChart_resume_Fulfilled [of t "Some False" chartOutcome now s1]
    by (cases "loadChart_resume t (Some False) chartOutcome now s1") simp
  obtain s3 where c': "loadChart_resume t (Some False) chartOutcome now s = (s3, Fulfilled)"
    using loadChart_resume_Fulfilled [of t "Some False" chartOutcome now s]
    by (cases "loadChart_resume t (Some False) chartOutcome now s") simp
  obtain s4 where m': "loadMarketOverview_resume t f (Some False) marketOutcome now s3 = (s4, Fulfilled)"
    using loadMarketOverview_resume_Fulfilled [of t f "Some False" marketOutcome now s3]
    by (cases "loadMarketOverview_resume t f (Some False) marketOutcome now s3") simp
  show ?thesis
    by (cases chartFirst) (simp_all add: attemptFetch_settle_def Let_def m c c' m')
qed

lemma failureCount_scheduleNext: "failureCount (scheduleNext ms hidden jitter p) = failureCount p"
  by (simp add: scheduleNext_def Let_def)

lemma exact_interval_numeral: "exact_interval (numeral n) \<longleftrightarrow> (numeral n :: rat) \<le> 2 ^ 49"
  by (simp add: exact_interval_def)

text \<open>
  Claim C4. The claim expects every failed attempt to raise the failure counter. What the
  code does: both loaders catch their own errors and fulfil, \<open>Promise.all\<close> never
  rejects, so after every attempt the counter is 0 and the next delay is scheduled with
  multiplier 1, whatever the fetches returned.
\<close>

theorem attemptFetch_never_counts_failure:
  "failureCount (snd (attemptFetch_settle ms hidden jitter t f chartFirst
       marketOutcome chartOutcome now (s, p))) = 0
   \<and> snd (attemptFetch_settle ms hidden jitter t f chartFirst marketOutcome chartOutcome now (s, p))
       = (if cancelled p then p\<lparr>failureCount := 0, isFetching := False\<rparr>
          else scheduleNext ms hidden jitter (p\<lparr>failureCount := 0, isFetching := False\<rparr>))"
  by (simp add: attemptFetch_settle_poll failureCount_scheduleNext)

text \<open>
  Interval 60000, page visible, both fetches rejected, \<open>Math.random()\<close> returning 0.5 (the
  jitter is then 0): the counter is 0 and 60000 is scheduled, where one counted failure would
  give 120000 before jitter.
\<close>

theorem attemptFetch_never_counts_failure_witness:
  "failureCount (snd (attemptFetch_settle 60000 False 0 (\<lambda>key vars. key) DEFAULT_FILTERS
       False (Inl networkError) (Inl networkError) 0 (initial_state, fresh_poll))) = 0
   \<and> timeoutId (snd (attemptFetch_settle 60000 False 0 (\<lambda>key vars. key) DEFAULT_FILTERS
       False (Inl networkError) (Inl networkError) 0 (initial_state, fresh_poll)))
       = Some (Exact 60000)
   \<and> nonJittered 60000 False 1 = 120000"
  using attemptFetch_never_counts_failure [where ms = 60000 and hidden = False
      and jitter = 0 and t = "\<lambda>key vars. key" and f = DEFAULT_FILTERS
      and chartFirst = False and marketOutcome = "Inl networkError"
      and chartOutcome = "Inl networkError" and now = 0 and s = initial_state and p = fresh_poll]
  by (simp add: fresh_poll_def scheduleNext_def nonJittered_def Let_def exact_interval_numeral)





text \<open>
  Claim C9. With an interval that is zero or negative the polling effect returns at once:
  no closure state (so no timer), no request, the state untouched. An unset environment
  entry gives interval 0.
\<close>

theorem polling_disabled_when_interval_not_positive:
  assumes "ms \<le> 0"
  shows "pollingEffect ms hidden jitter f s = (s, None, [])
         \<and> AUTO_REFRESH_MS toNumber None = 0
         \<and> pollingEffect (AUTO_REFRESH_MS toNumber None) hidden jitter f s = (s, None, [])"
  using assms by (simp add: pollingEffect_def AUTO_REFRESH_MS_def)

theorem polling_disabled_when_interval_not_positive_witness:
  "pollingEffect 0 False 0 DEFAULT_FILTERS initial_state = (initial_state, None, [])
   \<and> pollingEffect (- 5) False 0 DEFAULT_FILTERS initial_state = (initial_state, None, [])"
  using polling_disabled_when_interval_not_positive [where ms = 0 and hidden = False
      and jitter = 0 and f = DEFAULT_FILTERS and s = initial_state]
    polling_disabled_when_interval_not_positive [where ms = "- 5" and hidden = False
      and jitter = 0 and f = DEFAULT_FILTERS and s = initial_state]
  by simp

end
